theory Spec2Isabelle
  imports Main "HOL-Library.Sublist"
begin

section \<open>The query handler of \<open>function_app.py\<close>\<close>

text \<open>
  The module has two coroutines: \<open>extract_titles\<close>, which asks the chat service for the
  titles named in a query, and \<open>handle_query_handler\<close>, the HTTP entry point, which
  validates the request, extracts titles, looks them up in the search index, asks the chat
  service for an answer and serialises both into the response.

  The two outbound clients are module globals, objects that may keep state of their own.
  Here they are one parameter, a record of the two services; each is a function from
  everything that happened in the process so far (the trace) and the arguments of a call to
  what the call does: raise, or return. Every call and every log line is appended to the
  trace, which is passed through, so that "no call is made" is a property of the trace, and
  a client whose replies depend on its own past is a service that reads the trace.
\<close>

subsection \<open>Python values, strings and dictionaries\<close>

text \<open>
  The values read from a request body, a chat message or a search result: \<open>None\<close> (JSON
  \<open>null\<close>) or text. \<open>py_truthy\<close> is the truth value Python gives them, \<open>py_format\<close> is
  \<open>str\<close>, which an f-string applies. Numbers, booleans, arrays and objects in these
  places are outside the contracts of the endpoint and of the two services, and are not
  modelled.
\<close>

datatype py_value = Py_None | Py_str string

primrec py_truthy :: "py_value \<Rightarrow> bool" where
  "py_truthy Py_None = False"
| "py_truthy (Py_str s) = (s \<noteq> [])"

primrec py_format :: "py_value \<Rightarrow> string" where
  "py_format Py_None = ''None''"
| "py_format (Py_str s) = s"

text \<open>
  An exception is its class name and its message; \<open>str(e)\<close> is the message. Only
  subclasses of \<open>Exception\<close> are modelled, the ones \<open>except Exception\<close> catches.
\<close>

datatype exn = Exn (exn_class: string) (exn_str: string)

text \<open>
  \<open>s.split(sep)\<close> for a non-empty separator: scan from the left, cut at every
  occurrence of \<open>sep\<close> that does not overlap the previous one. The accumulator holds the
  current piece, reversed. (Python raises \<open>ValueError\<close> on an empty separator; the module
  only ever splits on a two-character literal, and the guard \<open>sep \<noteq> []\<close> keeps the
  recursion well-founded.)
\<close>

fun split_from :: "string \<Rightarrow> string \<Rightarrow> string \<Rightarrow> string list" where
  "split_from sep acc [] = [rev acc]"
| "split_from sep acc (c # cs) =
     (if sep \<noteq> [] \<and> prefix sep (c # cs)
      then rev acc # split_from sep [] (drop (length sep) (c # cs))
      else split_from sep (c # acc) cs)"

definition str_split :: "string \<Rightarrow> string \<Rightarrow> string list" where
  "str_split s sep = split_from sep [] s"

text \<open>\<open>v.split(sep)\<close> on a value: \<open>None\<close> has no such method.\<close>

primrec py_split :: "py_value \<Rightarrow> string \<Rightarrow> exn + string list" where
  "py_split Py_None sep =
     Inl (Exn ''AttributeError'' ([CHR 0x27] @ ''NoneType'' @ [CHR 0x27] @ '' object has no attribute 'split'' @ [CHR 0x27]))"
| "py_split (Py_str s) sep = Inr (str_split s sep)"

text \<open>\<open>sep.join(xs)\<close>.\<close>

fun str_join :: "string \<Rightarrow> string list \<Rightarrow> string" where
  "str_join sep [] = []"
| "str_join sep [x] = x"
| "str_join sep (x # y # ys) = x @ sep @ str_join sep (y # ys)"

text \<open>
  A dictionary with text keys, and \<open>d.get(k, default)\<close>: the default is returned only
  when the key is missing; a key that is present with the value \<open>None\<close> gives \<open>None\<close>.
\<close>

type_synonym dict = "string \<rightharpoonup> py_value"

definition dict_get :: "dict \<Rightarrow> string \<Rightarrow> py_value \<Rightarrow> py_value" where
  "dict_get d k dflt = (case d k of None \<Rightarrow> dflt | Some v \<Rightarrow> v)"

subsection \<open>Requests, responses, services\<close>

text \<open>
  \<open>req.get_json()\<close> either raises (the body is not JSON) or returns the parsed value:
  an object, or a value of another Python type, of which only the type name matters.
\<close>

datatype json_value = Json_object dict | Json_other string

record http_request =
  get_json :: "exn + json_value"

text \<open>
  The body of a response is plain text or \<open>json.dumps\<close> of a dictionary, kept as the list
  of its items in insertion order; the serialisation itself is the library's. The
  \<open>mimetype\<close> is \<open>None\<close> where the handler passes none to \<open>func.HttpResponse\<close>.
\<close>

datatype response_body = Plain string | Json_dumps "(string \<times> py_value) list"

record http_response =
  get_body :: response_body
  status_code :: nat
  mimetype :: "string option"

definition HttpResponse :: "response_body \<Rightarrow> nat \<Rightarrow> string option \<Rightarrow> http_response" where
  "HttpResponse b sc mt = \<lparr>get_body = b, status_code = sc, mimetype = mt\<rparr>"

text \<open>A chat message sent to the service is a role and a content.\<close>

type_synonym chat_message = "string \<times> string"

text \<open>
  The message of a choice in a chat completion. The module builds its client with
  \<open>AsyncAzureOpenAI\<close> (lines 8 and 32), whose completions carry \<open>ChatCompletionMessage\<close>
  objects: the content is the attribute \<open>content\<close>, text or \<open>None\<close>, and the class has no
  method \<open>get\<close>. Lines 54 and 101 call \<open>message.get\<close>, which exists on a dictionary; so
  the model has both kinds of message, the object the client returns and the dictionary
  the two lines are written for, and \<open>message_get\<close> is what \<open>message.get(key, default)\<close>
  does on each.
\<close>

datatype message = Chat_completion_message py_value | Dict_message dict

primrec message_get :: "message \<Rightarrow> string \<Rightarrow> py_value \<Rightarrow> exn + py_value" where
  "message_get (Chat_completion_message c) key dflt =
     Inl (Exn ''AttributeError''
            ([CHR 0x27] @ ''ChatCompletionMessage'' @ [CHR 0x27]
             @ '' object has no attribute 'get'' @ [CHR 0x27]))"
| "message_get (Dict_message d) key dflt = Inr (dict_get d key dflt)"

text \<open>A chat completion holds the list \<open>choices\<close>; each choice is represented by its message.\<close>

record chat_completion =
  choices :: "message list"

text \<open>
  A search result with the two selected fields, each text or \<open>None\<close>.
\<close>

record document =
  title :: py_value
  content :: py_value

datatype event =
    Log_info string
  | Log_error string
  | Chat_request string "chat_message list"
  | Search_request string "string list"

type_synonym trace = "event list"

text \<open>
  The services: the chat deployment name read from the environment,
  \<open>client.chat.completions.create(model, messages)\<close> and
  \<open>search_client.search(filter, select)\<close>, each given the trace at the moment of the call.
  The search returns an asynchronous iterator that the handler consumes completely in one
  comprehension, keeping nothing of it when it raises; so a search is modelled as raising or
  as the list of all its results.
\<close>

record services =
  azure_openai_chat_deployment :: string
  chat_create :: "trace \<Rightarrow> string \<Rightarrow> chat_message list \<Rightarrow> exn + chat_completion"
  search :: "trace \<Rightarrow> string \<Rightarrow> string list \<Rightarrow> exn + document list"

subsection \<open>\<open>extract_titles\<close>\<close>

definition title_system_prompt :: string where
  "title_system_prompt = ''Extract titles from the query. List of titles extracted from the query. Complete file names are considered titles. If there are no titles in the query, provide an empty list. For example, in the query 'Find the report on sales and the summary of the meeting using 'myreport.pdf', the titles would be ['myreport.pdf']. If no titles are found, return an empty list.''"

definition title_messages :: "string \<Rightarrow> chat_message list" where
  "title_messages query =
     [(''system'', title_system_prompt),
      (''user'', ''Extract the titles from this query: '' @ query)]"

definition chat_completions_create ::
  "services \<Rightarrow> chat_message list \<Rightarrow> trace \<Rightarrow> (exn + chat_completion) \<times> trace" where
  "chat_completions_create sv messages tr =
     (chat_create sv tr (azure_openai_chat_deployment sv) messages,
      tr @ [Chat_request (azure_openai_chat_deployment sv) messages])"

text \<open>\<open>response.choices[0].message\<close>: indexing an empty list raises.\<close>

definition first_message :: "chat_completion \<Rightarrow> exn + message" where
  "first_message response =
     (case choices response of
        [] \<Rightarrow> Inl (Exn ''IndexError'' ''list index out of range'')
      | message # _ \<Rightarrow> Inr message)"

text \<open>
  Line 54 is \<open>response.choices[0].message.get("content", "").split(", ")\<close>: each of the
  three steps may raise.
\<close>

definition extract_titles :: "services \<Rightarrow> string \<Rightarrow> trace \<Rightarrow> (exn + string list) \<times> trace" where
  "extract_titles sv query tr =
     (case chat_completions_create sv (title_messages query) tr of
        (Inl e, tr') \<Rightarrow> (Inl e, tr')
      | (Inr response, tr') \<Rightarrow>
          (case first_message response of
             Inl e \<Rightarrow> (Inl e, tr')
           | Inr message \<Rightarrow>
               (case message_get message ''content'' (Py_str '''') of
                  Inl e \<Rightarrow> (Inl e, tr')
                | Inr text \<Rightarrow>
                    (case py_split text '', '' of
                       Inl e \<Rightarrow> (Inl e, tr')
                     | Inr titles \<Rightarrow> (Inr titles, tr')))))"

subsection \<open>\<open>handle_query_handler\<close>\<close>

text \<open>The filter of line 86: one clause per title, joined by \<open>or\<close>.\<close>

definition filter_query_of :: "string list \<Rightarrow> string" where
  "filter_query_of titles =
     str_join '' or '' (map (\<lambda>title. ''title eq '' @ [CHR 0x27] @ title @ [CHR 0x27]) titles)"

text \<open>The block of line 89 for one search result.\<close>

definition format_result :: "document \<Rightarrow> string" where
  "format_result result =
     ''Title: '' @ py_format (title result) @ [CHR 0x0A]
     @ ''Content: '' @ py_format (content result)"

text \<open>
  Lines 84 to 92: \<open>formatted_results\<close> starts empty; only under \<open>if titles:\<close> is the index
  searched, the results formatted and joined, and an empty text replaced by the sentinel.
\<close>

definition search_by_titles :: "services \<Rightarrow> string list \<Rightarrow> trace \<Rightarrow> (exn + string) \<times> trace" where
  "search_by_titles sv titles tr =
     (if titles \<noteq> [] then
        (let filter_query = filter_query_of titles;
             tr' = tr @ [Search_request filter_query [''title'', ''content'']]
         in case search sv tr filter_query [''title'', ''content''] of
              Inl e \<Rightarrow> (Inl e, tr')
            | Inr results \<Rightarrow>
                (let formatted_results = str_join [CHR 0x0A] (map format_result results)
                 in if formatted_results = []
                    then (Inr ''No relevant content found.'', tr')
                    else (Inr formatted_results, tr')))
      else (Inr [], tr))"

definition answer_system_prompt :: string where
  "answer_system_prompt = ''You are a helpful assistant that answers queries. You do not have access to the internet, but you can use documents in the chat history to answer the question. If the documents do not contain the answer, say 'I don't know'. You must cite your answer with the titles of the documents used. If you are unsure, say 'I don't know'.''"

definition answer_messages :: "string \<Rightarrow> string \<Rightarrow> chat_message list" where
  "answer_messages query formatted_results =
     [(''system'', answer_system_prompt),
      (''user'', ''Answer this query: '' @ [CHR 0x27] @ query @ [CHR 0x27]
                 @ '' using the following documents:'' @ [CHR 0x0A] @ formatted_results)]"

text \<open>Lines 94 to 101: the second chat call and the answer read from it.\<close>

definition answer_query :: "services \<Rightarrow> string \<Rightarrow> string \<Rightarrow> trace \<Rightarrow> (exn + py_value) \<times> trace" where
  "answer_query sv query formatted_results tr =
     (case chat_completions_create sv (answer_messages query formatted_results) tr of
        (Inl e, tr') \<Rightarrow> (Inl e, tr')
      | (Inr response, tr') \<Rightarrow>
          (case first_message response of
             Inl e \<Rightarrow> (Inl e, tr')
           | Inr message \<Rightarrow>
               (case message_get message ''content'' (Py_str ''No answer generated.'') of
                  Inl e \<Rightarrow> (Inl e, tr')
                | Inr openai_answer \<Rightarrow> (Inr openai_answer, tr'))))"

text \<open>Lines 83 to 107: what the handler does once it holds the list of titles.\<close>

definition respond_with_titles ::
  "services \<Rightarrow> string \<Rightarrow> string list \<Rightarrow> trace \<Rightarrow> (exn + http_response) \<times> trace" where
  "respond_with_titles sv query titles tr =
     (case search_by_titles sv titles tr of
        (Inl e, tr1) \<Rightarrow> (Inl e, tr1)
      | (Inr formatted_results, tr1) \<Rightarrow>
          (case answer_query sv query formatted_results tr1 of
             (Inl e, tr2) \<Rightarrow> (Inl e, tr2)
           | (Inr openai_answer, tr2) \<Rightarrow>
               (Inr (HttpResponse
                       (Json_dumps [(''openai_answer'', openai_answer),
                                    (''retrieved_content'', Py_str formatted_results)])
                       200 (Some ''application/json'')),
                tr2)))"

text \<open>
  The body of the \<open>try\<close>, lines 76 to 107. \<open>body.get\<close> exists on a dictionary only; on any
  other parsed value the attribute lookup raises. A query that passes \<open>if not query\<close> is
  formatted into both prompts by f-strings; \<open>q\<close> is that text.
\<close>

definition try_body :: "services \<Rightarrow> http_request \<Rightarrow> trace \<Rightarrow> (exn + http_response) \<times> trace" where
  "try_body sv req tr =
     (case get_json req of
        Inl e \<Rightarrow> (Inl e, tr)
      | Inr (Json_other type_name) \<Rightarrow>
          (Inl (Exn ''AttributeError''
                  ([CHR 0x27] @ type_name @ [CHR 0x27] @ '' object has no attribute 'get'' @ [CHR 0x27])),
           tr)
      | Inr (Json_object body) \<Rightarrow>
          (let query = dict_get body ''query'' (Py_str '''')
           in if \<not> py_truthy query
              then (Inr (HttpResponse (Plain ''No query provided.'') 400 None), tr)
              else (let q = py_format query
                    in case extract_titles sv q tr of
                         (Inl e, tr1) \<Rightarrow> (Inl e, tr1)
                       | (Inr titles, tr1) \<Rightarrow> respond_with_titles sv q titles tr1)))"

text \<open>The handler: log, run the body, turn any exception into the 500 response.\<close>

definition handle_query_handler :: "services \<Rightarrow> http_request \<Rightarrow> trace \<Rightarrow> http_response \<times> trace" where
  "handle_query_handler sv req tr =
     (case try_body sv req (tr @ [Log_info ''QueryHandler function processed a request.'']) of
        (Inr response, tr') \<Rightarrow> (response, tr')
      | (Inl e, tr') \<Rightarrow>
          (HttpResponse (Plain (''Error: '' @ exn_str e)) 500 None,
           tr' @ [Log_error (''Error in QueryHandler: '' @ exn_str e)]))"

subsection \<open>Reading a trace\<close>

primrec is_search_request :: "event \<Rightarrow> bool" where
  "is_search_request (Log_info m) = False"
| "is_search_request (Log_error m) = False"
| "is_search_request (Chat_request model messages) = False"
| "is_search_request (Search_request filter_query select) = True"

primrec is_chat_request :: "event \<Rightarrow> bool" where
  "is_chat_request (Log_info m) = False"
| "is_chat_request (Log_error m) = False"
| "is_chat_request (Chat_request model messages) = True"
| "is_chat_request (Search_request filter_query select) = False"

text \<open>The calls to the two services recorded in a trace, in order.\<close>

definition service_calls :: "trace \<Rightarrow> event list" where
  "service_calls tr = filter (\<lambda>ev. is_chat_request ev \<or> is_search_request ev) tr"

definition search_calls :: "trace \<Rightarrow> event list" where
  "search_calls tr = filter is_search_request tr"

subsection \<open>Scripted services\<close>

text \<open>
  Services for concrete runs: the chat service gives one reply to the title-extraction
  prompt and another to the answer prompt, the search gives one reply to every filter,
  whatever happened before. \<open>completion_with\<close> and \<open>completion_without_content\<close> are
  completions as the client of the module returns them; the two \<open>dict_\<close> ones carry a
  dictionary as message.
\<close>

definition scripted_services ::
  "(exn + chat_completion) \<Rightarrow> (exn + document list) \<Rightarrow> (exn + chat_completion) \<Rightarrow> services" where
  "scripted_services titles_reply search_reply answer_reply =
     \<lparr>azure_openai_chat_deployment = ''chat'',
      chat_create = (\<lambda>history model messages.
         if take 7 (snd (last messages)) = ''Extract'' then titles_reply else answer_reply),
      search = (\<lambda>history filter_query select. search_reply)\<rparr>"

definition completion_with :: "string \<Rightarrow> exn + chat_completion" where
  "completion_with text = Inr \<lparr>choices = [Chat_completion_message (Py_str text)]\<rparr>"

definition completion_without_content :: "exn + chat_completion" where
  "completion_without_content = Inr \<lparr>choices = [Chat_completion_message Py_None]\<rparr>"

definition dict_completion_with :: "string \<Rightarrow> exn + chat_completion" where
  "dict_completion_with text = Inr \<lparr>choices = [Dict_message [''content'' \<mapsto> Py_str text]]\<rparr>"

definition dict_completion_without_content :: "exn + chat_completion" where
  "dict_completion_without_content = Inr \<lparr>choices = [Dict_message Map.empty]\<rparr>"

definition request_with_query :: "string \<Rightarrow> http_request" where
  "request_with_query q = \<lparr>get_json = Inr (Json_object [''query'' \<mapsto> Py_str q])\<rparr>"

text \<open>
  A chat service with a memory: it raises a timeout as long as the trace shows no earlier
  chat call, and a rate-limit error once it does.
\<close>

definition flaky_services :: services where
  "flaky_services =
     \<lparr>azure_openai_chat_deployment = ''chat'',
      chat_create = (\<lambda>history model messages.
         if filter is_chat_request history = []
         then Inl (Exn ''APITimeoutError'' ''Request timed out.'')
         else Inl (Exn ''RateLimitError'' ''Too many requests'')),
      search = (\<lambda>history filter_query select. Inr [])\<rparr>"

text \<open>
  Services whose replies are fixed by the arguments of the call: the trace at the moment of
  the call makes no difference.
\<close>

definition fixed_replies :: "services \<Rightarrow> bool" where
  "fixed_replies sv \<longleftrightarrow>
     (\<forall>h model messages. chat_create sv h model messages = chat_create sv [] model messages)
     \<and> (\<forall>h flt sel. search sv h flt sel = search sv [] flt sel)"

subsection \<open>The filter as the specification words it\<close>

text \<open>
  The specification describes the filter as \<open>title eq 'T1' or title eq 'T2' or ...\<close> over
  the titles in list order. Written out directly for a first title and the titles after it:
  each title is put between two apostrophes as it is, and a title that occurs twice gives
  two clauses.
\<close>

fun filter_expression_spec :: "string \<Rightarrow> string list \<Rightarrow> string" where
  "filter_expression_spec t [] = ''title eq '' @ [CHR 0x27] @ t @ [CHR 0x27]"
| "filter_expression_spec t (u # us) =
     ''title eq '' @ [CHR 0x27] @ t @ [CHR 0x27] @ '' or '' @ filter_expression_spec u us"

section \<open>Properties\<close>

subsection \<open>Splitting, joining, formatting\<close>

lemma split_from_not_Nil: "split_from sep acc s \<noteq> []"
  by (induction sep acc s rule: split_from.induct) simp_all

lemma str_split_not_Nil: "str_split s sep \<noteq> []"
  by (simp add: str_split_def split_from_not_Nil)

lemma py_split_not_Nil: "py_split v sep = Inr ts \<Longrightarrow> ts \<noteq> []"
  by (cases v) (auto simp add: str_split_not_Nil)

lemma str_join_Cons_not_Nil: "x \<noteq> [] \<Longrightarrow> str_join sep (x # xs) \<noteq> []"
  by (cases xs) simp_all

lemma format_result_not_Nil: "format_result d \<noteq> []"
  by (simp add: format_result_def)

lemma formatted_not_Nil: "docs \<noteq> [] \<Longrightarrow> str_join sep (map format_result docs) \<noteq> []"
  by (cases docs) (simp_all add: str_join_Cons_not_Nil format_result_not_Nil)

lemma filter_query_of_spec: "filter_query_of (t # ts) = filter_expression_spec t ts"
  by (induction ts arbitrary: t) (simp_all add: filter_query_of_def)

subsection \<open>What each step adds to the trace, and what it returns\<close>

lemma extract_titles_events:
  "snd (extract_titles sv q tr) =
     tr @ [Chat_request (azure_openai_chat_deployment sv) (title_messages q)]"
  by (simp add: extract_titles_def chat_completions_create_def split: sum.splits)

lemma extract_titles_not_Nil: "extract_titles sv q tr = (Inr ts, tr') \<Longrightarrow> ts \<noteq> []"
  by (auto simp add: extract_titles_def chat_completions_create_def py_split_not_Nil
        split: sum.splits)

lemma search_by_titles_events:
  "titles \<noteq> [] \<Longrightarrow> snd (search_by_titles sv titles tr) =
     tr @ [Search_request (filter_query_of titles) [''title'', ''content'']]"
  by (simp add: search_by_titles_def Let_def split: sum.splits)

lemma search_by_titles_content:
  "titles \<noteq> [] \<Longrightarrow> search_by_titles sv titles tr = (Inr c, tr') \<Longrightarrow> c \<noteq> []"
  by (auto simp add: search_by_titles_def Let_def split: sum.splits if_splits)

lemma answer_query_events:
  "snd (answer_query sv q c tr) =
     tr @ [Chat_request (azure_openai_chat_deployment sv) (answer_messages q c)]"
  by (simp add: answer_query_def chat_completions_create_def split: sum.splits)

subsection \<open>The steps of a request along one path\<close>

lemma extract_titles_raises:
  assumes "chat_create sv tr (azure_openai_chat_deployment sv) (title_messages q) = Inl e"
  shows "extract_titles sv q tr =
           (Inl e, tr @ [Chat_request (azure_openai_chat_deployment sv) (title_messages q)])"
  using assms by (simp add: extract_titles_def chat_completions_create_def)

lemma extract_titles_object_message:
  assumes "chat_create sv tr (azure_openai_chat_deployment sv) (title_messages q) = Inr r1"
    and "choices r1 = Chat_completion_message c # ms1"
  shows "extract_titles sv q tr =
           (Inl (Exn ''AttributeError''
                   ([CHR 0x27] @ ''ChatCompletionMessage'' @ [CHR 0x27]
                    @ '' object has no attribute 'get'' @ [CHR 0x27])),
            tr @ [Chat_request (azure_openai_chat_deployment sv) (title_messages q)])"
  using assms by (simp add: extract_titles_def chat_completions_create_def first_message_def)

lemma extract_titles_dict_message:
  assumes "chat_create sv tr (azure_openai_chat_deployment sv) (title_messages q) = Inr r1"
    and "choices r1 = Dict_message m1 # ms1"
    and "dict_get m1 ''content'' (Py_str '''') = Py_str c"
  shows "extract_titles sv q tr =
           (Inr (str_split c '', ''),
            tr @ [Chat_request (azure_openai_chat_deployment sv) (title_messages q)])"
  using assms by (simp add: extract_titles_def chat_completions_create_def first_message_def)

lemma try_body_valid:
  assumes "get_json req = Inr (Json_object d)" and "d ''query'' = Some (Py_str q)" and "q \<noteq> []"
  shows "try_body sv req tr =
           (case extract_titles sv q tr of
              (Inl e, tr1) \<Rightarrow> (Inl e, tr1)
            | (Inr titles, tr1) \<Rightarrow> respond_with_titles sv q titles tr1)"
  using assms by (simp add: try_body_def dict_get_def)

lemma search_by_titles_results:
  assumes "titles \<noteq> []"
    and "search sv tr (filter_query_of titles) [''title'', ''content''] = Inr docs"
  shows "search_by_titles sv titles tr =
           (Inr (if docs = [] then ''No relevant content found.''
                 else str_join [CHR 0x0A] (map format_result docs)),
            tr @ [Search_request (filter_query_of titles) [''title'', ''content'']])"
  using assms by (simp add: search_by_titles_def Let_def formatted_not_Nil)

lemma search_by_titles_raises:
  assumes "titles \<noteq> []"
    and "search sv tr (filter_query_of titles) [''title'', ''content''] = Inl e"
  shows "search_by_titles sv titles tr =
           (Inl e, tr @ [Search_request (filter_query_of titles) [''title'', ''content'']])"
  using assms by (simp add: search_by_titles_def Let_def)

lemma answer_query_raises:
  assumes "chat_create sv tr (azure_openai_chat_deployment sv) (answer_messages q c) = Inl e"
  shows "answer_query sv q c tr =
           (Inl e, tr @ [Chat_request (azure_openai_chat_deployment sv) (answer_messages q c)])"
  using assms by (simp add: answer_query_def chat_completions_create_def)

lemma handler_raises:
  "try_body sv req (tr @ [Log_info ''QueryHandler function processed a request.'']) = (Inl e, tr')
   \<Longrightarrow> handle_query_handler sv req tr =
         (HttpResponse (Plain (''Error: '' @ exn_str e)) 500 None,
          tr' @ [Log_error (''Error in QueryHandler: '' @ exn_str e)])"
  by (simp add: handle_query_handler_def)

subsection \<open>The scripted services\<close>

lemma scripted_titles_reply:
  "chat_create (scripted_services a b c) h model (title_messages q) = a"
  by (simp add: scripted_services_def title_messages_def)

lemma scripted_answer_reply:
  "chat_create (scripted_services a b c) h model (answer_messages q r) = c"
  by (simp add: scripted_services_def answer_messages_def)

lemma scripted_search_reply: "search (scripted_services a b c) h f s = b"
  by (simp add: scripted_services_def)

lemma scripted_deployment: "azure_openai_chat_deployment (scripted_services a b c) = ''chat''"
  by (simp add: scripted_services_def)

lemmas run_defs =
  handle_query_handler_def try_body_def request_with_query_def dict_get_def extract_titles_def
  chat_completions_create_def first_message_def completion_with_def
  completion_without_content_def dict_completion_with_def dict_completion_without_content_def
  str_split_def respond_with_titles_def search_by_titles_def
  filter_query_of_def format_result_def answer_query_def search_calls_def Let_def
  scripted_titles_reply scripted_answer_reply scripted_search_reply scripted_deployment

subsection \<open>With fixed replies, each step only appends to the trace\<close>

lemma fixed_chat: "fixed_replies sv \<Longrightarrow> chat_create sv h m ms = chat_create sv [] m ms"
  unfolding fixed_replies_def by blast

lemma fixed_search: "fixed_replies sv \<Longrightarrow> search sv h f s = search sv [] f s"
  unfolding fixed_replies_def by blast

lemma extract_titles_trace:
  assumes "fixed_replies sv"
  shows "extract_titles sv q tr = (fst (extract_titles sv q []), tr @ snd (extract_titles sv q []))"
  by (simp add: extract_titles_def chat_completions_create_def fixed_chat [OF assms, of tr]
        split: sum.splits)

lemma search_by_titles_trace:
  assumes "fixed_replies sv"
  shows "search_by_titles sv ts tr =
           (fst (search_by_titles sv ts []), tr @ snd (search_by_titles sv ts []))"
  by (simp add: search_by_titles_def Let_def fixed_search [OF assms, of tr] split: sum.splits)

lemma answer_query_trace:
  assumes "fixed_replies sv"
  shows "answer_query sv q c tr = (fst (answer_query sv q c []), tr @ snd (answer_query sv q c []))"
  by (simp add: answer_query_def chat_completions_create_def fixed_chat [OF assms, of tr]
        split: sum.splits)

lemma respond_with_titles_trace:
  assumes f: "fixed_replies sv"
  shows "respond_with_titles sv q ts tr =
           (fst (respond_with_titles sv q ts []), tr @ snd (respond_with_titles sv q ts []))"
proof -
  obtain r1 e1 where s: "search_by_titles sv ts [] = (r1, e1)"
    by (cases "search_by_titles sv ts []")
  then have s': "search_by_titles sv ts tr = (r1, tr @ e1)"
    using search_by_titles_trace [OF f, of ts tr] by simp
  show ?thesis
  proof (cases r1)
    case (Inl e)
    with s s' show ?thesis by (simp add: respond_with_titles_def)
  next
    case (Inr c)
    obtain r2 e2 where a: "answer_query sv q c [] = (r2, e2)"
      by (cases "answer_query sv q c []")
    then have a1: "answer_query sv q c e1 = (r2, e1 @ e2)"
      using answer_query_trace [OF f, of q c e1] by simp
    from a have a2: "answer_query sv q c (tr @ e1) = (r2, tr @ e1 @ e2)"
      using answer_query_trace [OF f, of q c "tr @ e1"] by simp
    from Inr s s' a1 a2 show ?thesis
      by (cases r2) (simp_all add: respond_with_titles_def)
  qed
qed

lemma try_body_trace:
  assumes f: "fixed_replies sv"
  shows "try_body sv req tr = (fst (try_body sv req []), tr @ snd (try_body sv req []))"
proof (cases "get_json req")
  case (Inl e)
  then show ?thesis by (simp add: try_body_def)
next
  case (Inr v)
  show ?thesis
  proof (cases v)
    case (Json_other n)
    with Inr show ?thesis by (simp add: try_body_def)
  next
    case (Json_object d)
    let ?query = "dict_get d ''query'' (Py_str '''')"
    show ?thesis
    proof (cases "py_truthy ?query")
      case False
      with Inr Json_object show ?thesis by (simp add: try_body_def)
    next
      case True
      let ?q = "py_format ?query"
      obtain r1 e1 where x: "extract_titles sv ?q [] = (r1, e1)"
        by (cases "extract_titles sv ?q []")
      then have x': "extract_titles sv ?q tr = (r1, tr @ e1)"
        using extract_titles_trace [OF f, of ?q tr] by simp
      show ?thesis
      proof (cases r1)
        case (Inl e)
        with Inr Json_object True x x' show ?thesis by (simp add: try_body_def Let_def)
      next
        case r1: (Inr ts)
        have "respond_with_titles sv ?q ts (tr @ e1)
                = (fst (respond_with_titles sv ?q ts e1), tr @ snd (respond_with_titles sv ?q ts e1))"
          using respond_with_titles_trace [OF f, of ?q ts "tr @ e1"]
                respond_with_titles_trace [OF f, of ?q ts e1] by simp
        with Inr Json_object True x x' r1 show ?thesis by (simp add: try_body_def Let_def)
      qed
    qed
  qed
qed

lemma handler_trace:
  assumes f: "fixed_replies sv"
  shows "handle_query_handler sv req tr =
           (fst (handle_query_handler sv req []), tr @ snd (handle_query_handler sv req []))"
proof -
  let ?l = "[Log_info ''QueryHandler function processed a request.'']"
  obtain r es where b: "try_body sv req [] = (r, es)" by (cases "try_body sv req []")
  have "try_body sv req ?l = (r, ?l @ es)"
    using try_body_trace [OF f, of req ?l] b by simp
  moreover have "try_body sv req (tr @ ?l) = (r, tr @ ?l @ es)"
    using try_body_trace [OF f, of req "tr @ ?l"] b by simp
  ultimately show ?thesis
    by (cases r) (simp_all add: handle_query_handler_def)
qed

section \<open>The claims\<close>

text \<open>
  C1. The specification wants a chat response without content to give the empty list of
  titles, without aborting the request. For the query \<open>What is new?\<close> neither happens.
  Were the message a dictionary without the key \<open>content\<close>, the default text would be the
  empty string, whose split on \<open>", "\<close> is the list of one empty title: \<open>extract_titles\<close>
  returns \<open>['']\<close>, the handler searches with the filter \<open>title eq ''\<close> and, nothing
  matching, the response carries the sentinel text (first three parts). With the message
  the client of the module returns, content \<open>None\<close>, \<open>message.get\<close> raises and the
  request is aborted with status 500 after the one chat call (last part).
\<close>

theorem extract_titles_absent_content:
  "fst (extract_titles
          (scripted_services dict_completion_without_content (Inr [])
             (dict_completion_with ''I don't know''))
          ''What is new?'' []) = Inr ['''']
   \<and> search_calls (snd (handle_query_handler
          (scripted_services dict_completion_without_content (Inr [])
             (dict_completion_with ''I don't know''))
          (request_with_query ''What is new?'') []))
       = [Search_request (''title eq '' @ [CHR 0x27, CHR 0x27]) [''title'', ''content'']]
   \<and> fst (handle_query_handler
          (scripted_services dict_completion_without_content (Inr [])
             (dict_completion_with ''I don't know''))
          (request_with_query ''What is new?'') [])
       = HttpResponse
           (Json_dumps [(''openai_answer'', Py_str ''I don't know''),
                        (''retrieved_content'', Py_str ''No relevant content found.'')])
           200 (Some ''application/json'')
   \<and> handle_query_handler
         (scripted_services completion_without_content (Inr []) (completion_with ''I don't know''))
         (request_with_query ''What is new?'') []
       = (HttpResponse
            (Plain (''Error: 'ChatCompletionMessage' object has no attribute 'get'' @ [CHR 0x27]))
            500 None,
          [Log_info ''QueryHandler function processed a request.'',
           Chat_request ''chat'' (title_messages ''What is new?''),
           Log_error (''Error in QueryHandler: 'ChatCompletionMessage' object has no attribute 'get''
                      @ [CHR 0x27])])"
  by (simp add: run_defs)

text \<open>
  C2. The specification wants a request whose query yields no titles to get the empty text
  as \<open>retrieved_content\<close>, without a search. No request gets that: for every request
  with a non-empty query, whatever the two services reply, the response is never the 200
  response whose \<open>retrieved_content\<close> is the empty text.
\<close>

theorem retrieved_content_never_empty:
  assumes "get_json req = Inr (Json_object d)" and "d ''query'' = Some (Py_str q)" and "q \<noteq> []"
  shows "fst (handle_query_handler sv req tr) \<noteq>
           HttpResponse
             (Json_dumps [(''openai_answer'', a), (''retrieved_content'', Py_str [])])
             200 (Some ''application/json'')"
proof -
  let ?tr1 = "tr @ [Log_info ''QueryHandler function processed a request.'']"
  note body = try_body_valid [OF assms, of sv ?tr1]
  obtain x xt where x: "extract_titles sv q ?tr1 = (x, xt)"
    by (cases "extract_titles sv q ?tr1")
  show ?thesis
  proof (cases x)
    case (Inl e)
    with body x show ?thesis
      by (simp add: handle_query_handler_def HttpResponse_def)
  next
    case (Inr ts)
    with x have ne: "ts \<noteq> []" by (auto dest: extract_titles_not_Nil)
    obtain s st where s: "search_by_titles sv ts xt = (s, st)"
      by (cases "search_by_titles sv ts xt")
    show ?thesis
    proof (cases s)
      case (Inl e)
      with body x Inr s show ?thesis
        by (simp add: handle_query_handler_def respond_with_titles_def HttpResponse_def)
    next
      case c: (Inr c)
      with s ne have "c \<noteq> []" by (auto dest: search_by_titles_content)
      obtain r rt where r: "answer_query sv q c st = (r, rt)"
        by (cases "answer_query sv q c st")
      with body x Inr s c \<open>c \<noteq> []\<close> show ?thesis
        by (cases r) (simp_all add: handle_query_handler_def respond_with_titles_def HttpResponse_def)
    qed
  qed
qed

theorem retrieved_content_never_empty_witness:
  "get_json (request_with_query ''What is new?'')
     = Inr (Json_object [''query'' \<mapsto> Py_str ''What is new?''])
   \<and> fst (handle_query_handler
            (scripted_services (completion_with '''') (Inr []) (completion_with ''I don't know''))
            (request_with_query ''What is new?'') [])
       \<noteq> HttpResponse
           (Json_dumps [(''openai_answer'', Py_str ''I don't know''),
                        (''retrieved_content'', Py_str [])])
           200 (Some ''application/json'')
   \<and> fst (handle_query_handler
            (scripted_services (completion_with '''') (Inr []) (completion_with ''I don't know''))
            (request_with_query ''What is new?'') [])
       = HttpResponse
           (Plain (''Error: 'ChatCompletionMessage' object has no attribute 'get'' @ [CHR 0x27]))
           500 None"
proof -
  let ?sv = "scripted_services (completion_with '''') (Inr []) (completion_with ''I don't know'')"
  let ?q = "''What is new?''"
  have 1: "get_json (request_with_query ?q) = Inr (Json_object [''query'' \<mapsto> Py_str ?q])"
    by (simp add: request_with_query_def)
  have 2: "[''query'' \<mapsto> Py_str ?q] ''query'' = Some (Py_str ?q)" by simp
  have 3: "?q \<noteq> []" by simp
  have "fst (handle_query_handler ?sv (request_with_query ?q) [])
       = HttpResponse
           (Plain (''Error: 'ChatCompletionMessage' object has no attribute 'get'' @ [CHR 0x27]))
           500 None"
    by (simp add: run_defs)
  with 1 retrieved_content_never_empty [OF 1 2 3, of ?sv "[]" "Py_str ''I don't know''"]
  show ?thesis by blast
qed



text \<open>
  C5. For a request whose JSON object has no \<open>query\<close> field, or has the empty text or
  \<open>null\<close> there, the handler returns status 400 with the body \<open>No query provided.\<close>; the
  only thing added to the trace is the opening log line, so neither service is called.
\<close>

theorem missing_query_gives_400:
  assumes "get_json req = Inr (Json_object d)"
    and "d ''query'' = None \<or> d ''query'' = Some (Py_str []) \<or> d ''query'' = Some Py_None"
  shows "handle_query_handler sv req tr =
           (HttpResponse (Plain ''No query provided.'') 400 None,
            tr @ [Log_info ''QueryHandler function processed a request.''])
         \<and> service_calls (snd (handle_query_handler sv req tr)) = service_calls tr"
proof -
  from assms(2) have "\<not> py_truthy (dict_get d ''query'' (Py_str ''''))"
    by (auto simp add: dict_get_def)
  with assms(1) have "handle_query_handler sv req tr =
           (HttpResponse (Plain ''No query provided.'') 400 None,
            tr @ [Log_info ''QueryHandler function processed a request.''])"
    by (simp add: handle_query_handler_def try_body_def)
  then show ?thesis by (simp add: service_calls_def)
qed

theorem missing_query_gives_400_witness:
  "handle_query_handler
     (scripted_services (completion_with ''a.pdf'') (Inr []) (completion_with ''fine''))
     \<lparr>get_json = Inr (Json_object Map.empty)\<rparr> []
     = (HttpResponse (Plain ''No query provided.'') 400 None,
        [Log_info ''QueryHandler function processed a request.''])
   \<and> handle_query_handler
       (scripted_services (completion_with ''a.pdf'') (Inr []) (completion_with ''fine''))
       (request_with_query '''') []
     = (HttpResponse (Plain ''No query provided.'') 400 None,
        [Log_info ''QueryHandler function processed a request.''])
   \<and> handle_query_handler
       (scripted_services (completion_with ''a.pdf'') (Inr []) (completion_with ''fine''))
       \<lparr>get_json = Inr (Json_object [''query'' \<mapsto> Py_None])\<rparr> []
     = (HttpResponse (Plain ''No query provided.'') 400 None,
        [Log_info ''QueryHandler function processed a request.''])"
proof -
  let ?sv = "scripted_services (completion_with ''a.pdf'') (Inr []) (completion_with ''fine'')"
  have 1: "get_json \<lparr>get_json = Inr (Json_object Map.empty)\<rparr> = Inr (Json_object Map.empty)"
    by simp
  have 2: "(Map.empty :: dict) ''query'' = None \<or> (Map.empty :: dict) ''query'' = Some (Py_str [])
           \<or> (Map.empty :: dict) ''query'' = Some Py_None"
    by simp
  have 3: "get_json (request_with_query '''') = Inr (Json_object [''query'' \<mapsto> Py_str ''''])"
    by (simp add: request_with_query_def)
  have 4: "[''query'' \<mapsto> Py_str ''''] ''query'' = None
           \<or> [''query'' \<mapsto> Py_str ''''] ''query'' = Some (Py_str [])
           \<or> [''query'' \<mapsto> Py_str ''''] ''query'' = Some Py_None"
    by simp
  have 5: "get_json \<lparr>get_json = Inr (Json_object [''query'' \<mapsto> Py_None])\<rparr>
             = Inr (Json_object [''query'' \<mapsto> Py_None])"
    by simp
  have 6: "[''query'' \<mapsto> Py_None] ''query'' = None
           \<or> [''query'' \<mapsto> Py_None] ''query'' = Some (Py_str [])
           \<or> [''query'' \<mapsto> Py_None] ''query'' = Some Py_None"
    by simp
  show ?thesis
    using missing_query_gives_400 [OF 1 2, of ?sv "[]"] missing_query_gives_400 [OF 3 4, of ?sv "[]"]
      missing_query_gives_400 [OF 5 6, of ?sv "[]"]
    by simp
qed

text \<open>
  C6. An exception \<open>e\<close> raised by the parsing of the request body, by the title-extraction
  chat call, by the search, or by the answer chat call gives status 500 with the plain-text
  body \<open>Error: \<close> followed by \<open>str(e)\<close>. The trace shows each call made up to the
  failing one exactly once, then the error log line: nothing is retried, and the response
  carries no answer and no retrieved content. The search and the answer call are reached
  only when the first message is a dictionary with a text content (third and fourth part);
  when it is the object the client returns, the exception is the one \<open>message.get\<close>
  raises, with the same outcome (last part).
\<close>

theorem exceptions_become_500:
  "(get_json req = Inl e \<longrightarrow>
      handle_query_handler sv req tr =
        (HttpResponse (Plain (''Error: '' @ exn_str e)) 500 None,
         tr @ [Log_info ''QueryHandler function processed a request.'',
               Log_error (''Error in QueryHandler: '' @ exn_str e)]))
   \<and> (get_json req = Inr (Json_object d) \<and> d ''query'' = Some (Py_str q) \<and> q \<noteq> []
        \<and> tr1 = tr @ [Log_info ''QueryHandler function processed a request.'']
        \<and> chat_create sv tr1 (azure_openai_chat_deployment sv) (title_messages q) = Inl e \<longrightarrow>
      handle_query_handler sv req tr =
        (HttpResponse (Plain (''Error: '' @ exn_str e)) 500 None,
         tr @ [Log_info ''QueryHandler function processed a request.'',
               Chat_request (azure_openai_chat_deployment sv) (title_messages q),
               Log_error (''Error in QueryHandler: '' @ exn_str e)]))
   \<and> (get_json req = Inr (Json_object d) \<and> d ''query'' = Some (Py_str q) \<and> q \<noteq> []
        \<and> tr1 = tr @ [Log_info ''QueryHandler function processed a request.'']
        \<and> chat_create sv tr1 (azure_openai_chat_deployment sv) (title_messages q) = Inr r1
        \<and> choices r1 = Dict_message m1 # ms1
        \<and> dict_get m1 ''content'' (Py_str '''') = Py_str c
        \<and> titles = str_split c '', ''
        \<and> tr2 = tr1 @ [Chat_request (azure_openai_chat_deployment sv) (title_messages q)]
        \<and> search sv tr2 (filter_query_of titles) [''title'', ''content''] = Inl e \<longrightarrow>
      handle_query_handler sv req tr =
        (HttpResponse (Plain (''Error: '' @ exn_str e)) 500 None,
         tr @ [Log_info ''QueryHandler function processed a request.'',
               Chat_request (azure_openai_chat_deployment sv) (title_messages q),
               Search_request (filter_query_of titles) [''title'', ''content''],
               Log_error (''Error in QueryHandler: '' @ exn_str e)]))
   \<and> (get_json req = Inr (Json_object d) \<and> d ''query'' = Some (Py_str q) \<and> q \<noteq> []
        \<and> tr1 = tr @ [Log_info ''QueryHandler function processed a request.'']
        \<and> chat_create sv tr1 (azure_openai_chat_deployment sv) (title_messages q) = Inr r1
        \<and> choices r1 = Dict_message m1 # ms1
        \<and> dict_get m1 ''content'' (Py_str '''') = Py_str c
        \<and> titles = str_split c '', ''
        \<and> tr2 = tr1 @ [Chat_request (azure_openai_chat_deployment sv) (title_messages q)]
        \<and> search sv tr2 (filter_query_of titles) [''title'', ''content''] = Inr docs
        \<and> retrieved = (if docs = [] then ''No relevant content found.''
                        else str_join [CHR 0x0A] (map format_result docs))
        \<and> tr3 = tr2 @ [Search_request (filter_query_of titles) [''title'', ''content'']]
        \<and> chat_create sv tr3 (azure_openai_chat_deployment sv) (answer_messages q retrieved)
            = Inl e \<longrightarrow>
      handle_query_handler sv req tr =
        (HttpResponse (Plain (''Error: '' @ exn_str e)) 500 None,
         tr @ [Log_info ''QueryHandler function processed a request.'',
               Chat_request (azure_openai_chat_deployment sv) (title_messages q),
               Search_request (filter_query_of titles) [''title'', ''content''],
               Chat_request (azure_openai_chat_deployment sv) (answer_messages q retrieved),
               Log_error (''Error in QueryHandler: '' @ exn_str e)]))
   \<and> (get_json req = Inr (Json_object d) \<and> d ''query'' = Some (Py_str q) \<and> q \<noteq> []
        \<and> tr1 = tr @ [Log_info ''QueryHandler function processed a request.'']
        \<and> chat_create sv tr1 (azure_openai_chat_deployment sv) (title_messages q) = Inr r1
        \<and> choices r1 = Chat_completion_message v # ms1 \<longrightarrow>
      handle_query_handler sv req tr =
        (HttpResponse
           (Plain (''Error: 'ChatCompletionMessage' object has no attribute 'get'' @ [CHR 0x27]))
           500 None,
         tr @ [Log_info ''QueryHandler function processed a request.'',
               Chat_request (azure_openai_chat_deployment sv) (title_messages q),
               Log_error (''Error in QueryHandler: 'ChatCompletionMessage' object has no attribute 'get''
                          @ [CHR 0x27])]))"
proof (intro conjI impI)
  assume "get_json req = Inl e"
  then show "handle_query_handler sv req tr =
        (HttpResponse (Plain (''Error: '' @ exn_str e)) 500 None,
         tr @ [Log_info ''QueryHandler function processed a request.'',
               Log_error (''Error in QueryHandler: '' @ exn_str e)])"
    by (simp add: handle_query_handler_def try_body_def)
next
  assume "get_json req = Inr (Json_object d) \<and> d ''query'' = Some (Py_str q) \<and> q \<noteq> []
        \<and> tr1 = tr @ [Log_info ''QueryHandler function processed a request.'']
        \<and> chat_create sv tr1 (azure_openai_chat_deployment sv) (title_messages q) = Inl e"
  then have j: "get_json req = Inr (Json_object d)" and dq: "d ''query'' = Some (Py_str q)"
    and q: "q \<noteq> []"
    and t1: "tr1 = tr @ [Log_info ''QueryHandler function processed a request.'']"
    and c1: "chat_create sv tr1 (azure_openai_chat_deployment sv) (title_messages q) = Inl e"
    by blast+
  have "try_body sv req tr1 =
      (Inl e, tr1 @ [Chat_request (azure_openai_chat_deployment sv) (title_messages q)])"
    by (simp add: try_body_valid [OF j dq q] extract_titles_raises [OF c1])
  then show "handle_query_handler sv req tr =
        (HttpResponse (Plain (''Error: '' @ exn_str e)) 500 None,
         tr @ [Log_info ''QueryHandler function processed a request.'',
               Chat_request (azure_openai_chat_deployment sv) (title_messages q),
               Log_error (''Error in QueryHandler: '' @ exn_str e)])"
    unfolding t1 using handler_raises by simp
next
  assume "get_json req = Inr (Json_object d) \<and> d ''query'' = Some (Py_str q) \<and> q \<noteq> []
        \<and> tr1 = tr @ [Log_info ''QueryHandler function processed a request.'']
        \<and> chat_create sv tr1 (azure_openai_chat_deployment sv) (title_messages q) = Inr r1
        \<and> choices r1 = Dict_message m1 # ms1
        \<and> dict_get m1 ''content'' (Py_str '''') = Py_str c
        \<and> titles = str_split c '', ''
        \<and> tr2 = tr1 @ [Chat_request (azure_openai_chat_deployment sv) (title_messages q)]
        \<and> search sv tr2 (filter_query_of titles) [''title'', ''content''] = Inl e"
  then have j: "get_json req = Inr (Json_object d)" and dq: "d ''query'' = Some (Py_str q)"
    and q: "q \<noteq> []"
    and t1: "tr1 = tr @ [Log_info ''QueryHandler function processed a request.'']"
    and c1: "chat_create sv tr1 (azure_openai_chat_deployment sv) (title_messages q) = Inr r1"
    and ch: "choices r1 = Dict_message m1 # ms1"
    and co: "dict_get m1 ''content'' (Py_str '''') = Py_str c"
    and t: "titles = str_split c '', ''"
    and t2: "tr2 = tr1 @ [Chat_request (azure_openai_chat_deployment sv) (title_messages q)]"
    and se: "search sv tr2 (filter_query_of titles) [''title'', ''content''] = Inl e"
    by blast+
  have x: "extract_titles sv q tr1 = (Inr titles, tr2)"
    unfolding t t2 by (rule extract_titles_dict_message [OF c1 ch co])
  have ne: "titles \<noteq> []"
    unfolding t by (rule str_split_not_Nil)
  have "try_body sv req tr1 =
      (Inl e, tr2 @ [Search_request (filter_query_of titles) [''title'', ''content'']])"
    by (simp add: try_body_valid [OF j dq q] x respond_with_titles_def
          search_by_titles_raises [OF ne se])
  then show "handle_query_handler sv req tr =
        (HttpResponse (Plain (''Error: '' @ exn_str e)) 500 None,
         tr @ [Log_info ''QueryHandler function processed a request.'',
               Chat_request (azure_openai_chat_deployment sv) (title_messages q),
               Search_request (filter_query_of titles) [''title'', ''content''],
               Log_error (''Error in QueryHandler: '' @ exn_str e)])"
    unfolding t1 t2 using handler_raises by simp
next
  assume "get_json req = Inr (Json_object d) \<and> d ''query'' = Some (Py_str q) \<and> q \<noteq> []
        \<and> tr1 = tr @ [Log_info ''QueryHandler function processed a request.'']
        \<and> chat_create sv tr1 (azure_openai_chat_deployment sv) (title_messages q) = Inr r1
        \<and> choices r1 = Dict_message m1 # ms1
        \<and> dict_get m1 ''content'' (Py_str '''') = Py_str c
        \<and> titles = str_split c '', ''
        \<and> tr2 = tr1 @ [Chat_request (azure_openai_chat_deployment sv) (title_messages q)]
        \<and> search sv tr2 (filter_query_of titles) [''title'', ''content''] = Inr docs
        \<and> retrieved = (if docs = [] then ''No relevant content found.''
                        else str_join [CHR 0x0A] (map format_result docs))
        \<and> tr3 = tr2 @ [Search_request (filter_query_of titles) [''title'', ''content'']]
        \<and> chat_create sv tr3 (azure_openai_chat_deployment sv) (answer_messages q retrieved)
            = Inl e"
  then have j: "get_json req = Inr (Json_object d)" and dq: "d ''query'' = Some (Py_str q)"
    and q: "q \<noteq> []"
    and t1: "tr1 = tr @ [Log_info ''QueryHandler function processed a request.'']"
    and c1: "chat_create sv tr1 (azure_openai_chat_deployment sv) (title_messages q) = Inr r1"
    and ch: "choices r1 = Dict_message m1 # ms1"
    and co: "dict_get m1 ''content'' (Py_str '''') = Py_str c"
    and t: "titles = str_split c '', ''"
    and t2: "tr2 = tr1 @ [Chat_request (azure_openai_chat_deployment sv) (title_messages q)]"
    and se: "search sv tr2 (filter_query_of titles) [''title'', ''content''] = Inr docs"
    and re: "retrieved = (if docs = [] then ''No relevant content found.''
                          else str_join [CHR 0x0A] (map format_result docs))"
    and t3: "tr3 = tr2 @ [Search_request (filter_query_of titles) [''title'', ''content'']]"
    and c2: "chat_create sv tr3 (azure_openai_chat_deployment sv) (answer_messages q retrieved)
               = Inl e"
    by blast+
  have x: "extract_titles sv q tr1 = (Inr titles, tr2)"
    unfolding t t2 by (rule extract_titles_dict_message [OF c1 ch co])
  have ne: "titles \<noteq> []"
    unfolding t by (rule str_split_not_Nil)
  have s: "search_by_titles sv titles tr2 = (Inr retrieved, tr3)"
    unfolding re t3 by (rule search_by_titles_results [OF ne se])
  have "try_body sv req tr1 =
      (Inl e, tr3 @ [Chat_request (azure_openai_chat_deployment sv) (answer_messages q retrieved)])"
    by (simp add: try_body_valid [OF j dq q] x respond_with_titles_def s
          answer_query_raises [OF c2])
  then show "handle_query_handler sv req tr =
        (HttpResponse (Plain (''Error: '' @ exn_str e)) 500 None,
         tr @ [Log_info ''QueryHandler function processed a request.'',
               Chat_request (azure_openai_chat_deployment sv) (title_messages q),
               Search_request (filter_query_of titles) [''title'', ''content''],
               Chat_request (azure_openai_chat_deployment sv) (answer_messages q retrieved),
               Log_error (''Error in QueryHandler: '' @ exn_str e)])"
    unfolding t1 t2 t3 using handler_raises by simp
next
  assume "get_json req = Inr (Json_object d) \<and> d ''query'' = Some (Py_str q) \<and> q \<noteq> []
        \<and> tr1 = tr @ [Log_info ''QueryHandler function processed a request.'']
        \<and> chat_create sv tr1 (azure_openai_chat_deployment sv) (title_messages q) = Inr r1
        \<and> choices r1 = Chat_completion_message v # ms1"
  then have j: "get_json req = Inr (Json_object d)" and dq: "d ''query'' = Some (Py_str q)"
    and q: "q \<noteq> []"
    and t1: "tr1 = tr @ [Log_info ''QueryHandler function processed a request.'']"
    and c1: "chat_create sv tr1 (azure_openai_chat_deployment sv) (title_messages q) = Inr r1"
    and ch: "choices r1 = Chat_completion_message v # ms1"
    by blast+
  have "try_body sv req tr1 =
      (Inl (Exn ''AttributeError''
              ([CHR 0x27] @ ''ChatCompletionMessage'' @ [CHR 0x27]
               @ '' object has no attribute 'get'' @ [CHR 0x27])),
       tr1 @ [Chat_request (azure_openai_chat_deployment sv) (title_messages q)])"
    by (simp add: try_body_valid [OF j dq q] extract_titles_object_message [OF c1 ch])
  then show "handle_query_handler sv req tr =
        (HttpResponse
           (Plain (''Error: 'ChatCompletionMessage' object has no attribute 'get'' @ [CHR 0x27]))
           500 None,
         tr @ [Log_info ''QueryHandler function processed a request.'',
               Chat_request (azure_openai_chat_deployment sv) (title_messages q),
               Log_error (''Error in QueryHandler: 'ChatCompletionMessage' object has no attribute 'get''
                          @ [CHR 0x27])])"
    unfolding t1 using handler_raises [of sv req tr] by simp
qed

theorem exceptions_become_500_witness:
  "handle_query_handler
     (scripted_services (completion_with ''a.pdf'') (Inr []) (completion_with ''fine''))
     \<lparr>get_json = Inl (Exn ''ValueError'' ''HTTP request does not contain valid JSON data'')\<rparr> []
     = (HttpResponse (Plain ''Error: HTTP request does not contain valid JSON data'') 500 None,
        [Log_info ''QueryHandler function processed a request.'',
         Log_error ''Error in QueryHandler: HTTP request does not contain valid JSON data''])
   \<and> handle_query_handler
       (scripted_services (Inl (Exn ''APITimeoutError'' ''Request timed out.'')) (Inr [])
          (completion_with ''fine''))
       (request_with_query ''What is in a.pdf?'') []
     = (HttpResponse (Plain ''Error: Request timed out.'') 500 None,
        [Log_info ''QueryHandler function processed a request.'',
         Chat_request ''chat'' (title_messages ''What is in a.pdf?''),
         Log_error ''Error in QueryHandler: Request timed out.''])
   \<and> handle_query_handler
       (scripted_services (dict_completion_with ''a.pdf'')
          (Inl (Exn ''HttpResponseError'' ''Invalid expression'')) (dict_completion_with ''fine''))
       (request_with_query ''What is in a.pdf?'') []
     = (HttpResponse (Plain ''Error: Invalid expression'') 500 None,
        [Log_info ''QueryHandler function processed a request.'',
         Chat_request ''chat'' (title_messages ''What is in a.pdf?''),
         Search_request (''title eq 'a.pdf'' @ [CHR 0x27]) [''title'', ''content''],
         Log_error ''Error in QueryHandler: Invalid expression''])
   \<and> handle_query_handler
       (scripted_services (dict_completion_with ''a.pdf'') (Inr [])
          (Inl (Exn ''RateLimitError'' ''Too many requests'')))
       (request_with_query ''What is in a.pdf?'') []
     = (HttpResponse (Plain ''Error: Too many requests'') 500 None,
        [Log_info ''QueryHandler function processed a request.'',
         Chat_request ''chat'' (title_messages ''What is in a.pdf?''),
         Search_request (''title eq 'a.pdf'' @ [CHR 0x27]) [''title'', ''content''],
         Chat_request ''chat'' (answer_messages ''What is in a.pdf?'' ''No relevant content found.''),
         Log_error ''Error in QueryHandler: Too many requests''])
   \<and> handle_query_handler
       (scripted_services (completion_with ''a.pdf'') (Inr []) (completion_with ''fine''))
       (request_with_query ''What is in a.pdf?'') []
     = (HttpResponse
          (Plain (''Error: 'ChatCompletionMessage' object has no attribute 'get'' @ [CHR 0x27]))
          500 None,
        [Log_info ''QueryHandler function processed a request.'',
         Chat_request ''chat'' (title_messages ''What is in a.pdf?''),
         Log_error (''Error in QueryHandler: 'ChatCompletionMessage' object has no attribute 'get''
                    @ [CHR 0x27])])"
proof -
  let ?q = "''What is in a.pdf?''"
  let ?d = "[''query'' \<mapsto> Py_str ?q]"
  let ?m1 = "[''content'' \<mapsto> Py_str ''a.pdf'']"
  let ?r1 = "\<lparr>choices = [Dict_message ?m1]\<rparr>"
  let ?o1 = "\<lparr>choices = [Chat_completion_message (Py_str ''a.pdf'')]\<rparr>"
  let ?l = "[Log_info ''QueryHandler function processed a request.'']"
  let ?l2 = "[Log_info ''QueryHandler function processed a request.'',
              Chat_request ''chat'' (title_messages ?q)]"
  let ?l3 = "[Log_info ''QueryHandler function processed a request.'',
              Chat_request ''chat'' (title_messages ?q),
              Search_request (filter_query_of [''a.pdf'']) [''title'', ''content'']]"
  let ?sv1 = "scripted_services (completion_with ''a.pdf'') (Inr []) (completion_with ''fine'')"
  let ?e1 = "Exn ''ValueError'' ''HTTP request does not contain valid JSON data''"
  let ?e2 = "Exn ''APITimeoutError'' ''Request timed out.''"
  let ?sv2 = "scripted_services (Inl ?e2) (Inr []) (completion_with ''fine'')"
  let ?e3 = "Exn ''HttpResponseError'' ''Invalid expression''"
  let ?sv3 = "scripted_services (dict_completion_with ''a.pdf'') (Inl ?e3)
                (dict_completion_with ''fine'')"
  let ?e4 = "Exn ''RateLimitError'' ''Too many requests''"
  let ?sv4 = "scripted_services (dict_completion_with ''a.pdf'') (Inr []) (Inl ?e4)"
  have titles: "str_split ''a.pdf'' '', '' = [''a.pdf'']"
    by (simp add: str_split_def)
  have flt: "filter_query_of [''a.pdf''] = ''title eq 'a.pdf'' @ [CHR 0x27]"
    by (simp add: filter_query_of_def)
  have a: "handle_query_handler ?sv1 \<lparr>get_json = Inl ?e1\<rparr> []
     = (HttpResponse (Plain ''Error: HTTP request does not contain valid JSON data'') 500 None,
        [Log_info ''QueryHandler function processed a request.'',
         Log_error ''Error in QueryHandler: HTTP request does not contain valid JSON data''])"
    using exceptions_become_500 [where req = "\<lparr>get_json = Inl ?e1\<rparr>" and e = ?e1
            and sv = ?sv1 and tr = "[]", THEN conjunct1]
    by simp
  have b: "handle_query_handler ?sv2 (request_with_query ?q) []
     = (HttpResponse (Plain ''Error: Request timed out.'') 500 None,
        [Log_info ''QueryHandler function processed a request.'',
         Chat_request ''chat'' (title_messages ?q),
         Log_error ''Error in QueryHandler: Request timed out.''])"
    using exceptions_become_500 [where req = "request_with_query ?q" and e = ?e2
            and sv = ?sv2 and tr = "[]" and d = ?d and q = ?q and ?tr1.0 = ?l,
            THEN conjunct2, THEN conjunct1]
    by (simp add: request_with_query_def scripted_titles_reply scripted_deployment)
  have c: "handle_query_handler ?sv3 (request_with_query ?q) []
     = (HttpResponse (Plain ''Error: Invalid expression'') 500 None,
        [Log_info ''QueryHandler function processed a request.'',
         Chat_request ''chat'' (title_messages ?q),
         Search_request (''title eq 'a.pdf'' @ [CHR 0x27]) [''title'', ''content''],
         Log_error ''Error in QueryHandler: Invalid expression''])"
    using exceptions_become_500 [where req = "request_with_query ?q" and e = ?e3
            and sv = ?sv3 and tr = "[]" and d = ?d and q = ?q and ?tr1.0 = ?l
            and ?r1.0 = ?r1 and ?m1.0 = ?m1 and ?ms1.0 = "[]" and c = "''a.pdf''"
            and titles = "[''a.pdf'']" and ?tr2.0 = ?l2,
            THEN conjunct2, THEN conjunct2, THEN conjunct1]
    by (simp add: request_with_query_def scripted_titles_reply scripted_search_reply
          scripted_deployment dict_completion_with_def dict_get_def titles flt)
  have d: "handle_query_handler ?sv4 (request_with_query ?q) []
     = (HttpResponse (Plain ''Error: Too many requests'') 500 None,
        [Log_info ''QueryHandler function processed a request.'',
         Chat_request ''chat'' (title_messages ?q),
         Search_request (''title eq 'a.pdf'' @ [CHR 0x27]) [''title'', ''content''],
         Chat_request ''chat'' (answer_messages ?q ''No relevant content found.''),
         Log_error ''Error in QueryHandler: Too many requests''])"
    using exceptions_become_500 [where req = "request_with_query ?q" and e = ?e4
            and sv = ?sv4 and tr = "[]" and d = ?d and q = ?q and ?tr1.0 = ?l
            and ?r1.0 = ?r1 and ?m1.0 = ?m1 and ?ms1.0 = "[]" and c = "''a.pdf''"
            and titles = "[''a.pdf'']" and ?tr2.0 = ?l2 and docs = "[]"
            and retrieved = "''No relevant content found.''" and ?tr3.0 = ?l3,
            THEN conjunct2, THEN conjunct2, THEN conjunct2, THEN conjunct1]
    by (simp add: request_with_query_def scripted_titles_reply scripted_search_reply
          scripted_answer_reply scripted_deployment dict_completion_with_def dict_get_def
          titles flt)
  have e: "handle_query_handler ?sv1 (request_with_query ?q) []
     = (HttpResponse
          (Plain (''Error: 'ChatCompletionMessage' object has no attribute 'get'' @ [CHR 0x27]))
          500 None,
        [Log_info ''QueryHandler function processed a request.'',
         Chat_request ''chat'' (title_messages ?q),
         Log_error (''Error in QueryHandler: 'ChatCompletionMessage' object has no attribute 'get''
                    @ [CHR 0x27])])"
    using exceptions_become_500 [where req = "request_with_query ?q"
            and sv = ?sv1 and tr = "[]" and d = ?d and q = ?q and ?tr1.0 = ?l
            and ?r1.0 = ?o1 and v = "Py_str ''a.pdf''" and ?ms1.0 = "[]",
            THEN conjunct2, THEN conjunct2, THEN conjunct2, THEN conjunct2]
    by (simp add: request_with_query_def scripted_titles_reply scripted_deployment
          completion_with_def)
  from a b c d e show ?thesis by blast
qed


text \<open>
  C8. The answer step gets a message without content. With the completions the client of
  the module returns, the request has already ended in 500 at the title extraction (first
  part); were the title message a dictionary, line 101 would raise on the answer message
  and the request would end in 500 after the search and the second chat call (second part).
  Were the answer message a dictionary holding \<open>None\<close> under \<open>content\<close>, the answer in
  the 200 response would be \<open>None\<close>, serialised as \<open>null\<close> (third part); only a dictionary
  lacking the key gives \<open>No answer generated.\<close> (fourth part).
\<close>

theorem answer_fallback_is_not_reached:
  "fst (handle_query_handler
          (scripted_services (completion_with ''a.pdf'')
             (Inr [\<lparr>title = Py_str ''a.pdf'', content = Py_str ''Alpha''\<rparr>])
             completion_without_content)
          (request_with_query ''What is in a.pdf?'') [])
     = HttpResponse
         (Plain (''Error: 'ChatCompletionMessage' object has no attribute 'get'' @ [CHR 0x27]))
         500 None
   \<and> handle_query_handler
       (scripted_services (dict_completion_with ''a.pdf'')
          (Inr [\<lparr>title = Py_str ''a.pdf'', content = Py_str ''Alpha''\<rparr>])
          completion_without_content)
       (request_with_query ''What is in a.pdf?'') []
     = (HttpResponse
          (Plain (''Error: 'ChatCompletionMessage' object has no attribute 'get'' @ [CHR 0x27]))
          500 None,
        [Log_info ''QueryHandler function processed a request.'',
         Chat_request ''chat'' (title_messages ''What is in a.pdf?''),
         Search_request (''title eq 'a.pdf'' @ [CHR 0x27]) [''title'', ''content''],
         Chat_request ''chat''
           (answer_messages ''What is in a.pdf?''
              (''Title: a.pdf'' @ [CHR 0x0A] @ ''Content: Alpha'')),
         Log_error (''Error in QueryHandler: 'ChatCompletionMessage' object has no attribute 'get''
                    @ [CHR 0x27])])
   \<and> fst (handle_query_handler
            (scripted_services (dict_completion_with ''a.pdf'')
               (Inr [\<lparr>title = Py_str ''a.pdf'', content = Py_str ''Alpha''\<rparr>])
               (Inr \<lparr>choices = [Dict_message [''content'' \<mapsto> Py_None]]\<rparr>))
            (request_with_query ''What is in a.pdf?'') [])
       = HttpResponse
           (Json_dumps [(''openai_answer'', Py_None),
                        (''retrieved_content'',
                         Py_str (''Title: a.pdf'' @ [CHR 0x0A] @ ''Content: Alpha''))])
           200 (Some ''application/json'')
   \<and> fst (handle_query_handler
            (scripted_services (dict_completion_with ''a.pdf'')
               (Inr [\<lparr>title = Py_str ''a.pdf'', content = Py_str ''Alpha''\<rparr>])
               dict_completion_without_content)
            (request_with_query ''What is in a.pdf?'') [])
       = HttpResponse
           (Json_dumps [(''openai_answer'', Py_str ''No answer generated.''),
                        (''retrieved_content'',
                         Py_str (''Title: a.pdf'' @ [CHR 0x0A] @ ''Content: Alpha''))])
           200 (Some ''application/json'')"
  by (simp add: run_defs)

text \<open>
  C9. When the replies of the two services are fixed by the arguments of the call (they do
  not depend on what happened in the process before), running the handler a second time on
  the same request, after the first run, gives the same response.
\<close>

theorem handler_deterministic:
  assumes "\<forall>h h' model messages.
             chat_create sv h model messages = chat_create sv h' model messages"
    and "\<forall>h h' flt sel. search sv h flt sel = search sv h' flt sel"
  shows "fst (handle_query_handler sv req (snd (handle_query_handler sv req tr)))
           = fst (handle_query_handler sv req tr)"
proof -
  from assms have f: "fixed_replies sv"
    unfolding fixed_replies_def by blast
  have run: "fst (handle_query_handler sv req t) = fst (handle_query_handler sv req [])" for t
    using handler_trace [OF f, of req t] by simp
  show ?thesis
    using run [of "snd (handle_query_handler sv req tr)"] run [of tr] by simp
qed

theorem handler_deterministic_witness:
  "(\<forall>h h' model messages.
      chat_create (scripted_services (completion_with ''a.pdf'')
                     (Inr [\<lparr>title = Py_str ''a.pdf'', content = Py_str ''Alpha''\<rparr>])
                     (completion_with ''Alpha, per a.pdf'')) h model messages
      = chat_create (scripted_services (completion_with ''a.pdf'')
                     (Inr [\<lparr>title = Py_str ''a.pdf'', content = Py_str ''Alpha''\<rparr>])
                     (completion_with ''Alpha, per a.pdf'')) h' model messages)
   \<and> fst (handle_query_handler
            (scripted_services (completion_with ''a.pdf'')
               (Inr [\<lparr>title = Py_str ''a.pdf'', content = Py_str ''Alpha''\<rparr>])
               (completion_with ''Alpha, per a.pdf''))
            (request_with_query ''What is in a.pdf?'')
            (snd (handle_query_handler
                    (scripted_services (completion_with ''a.pdf'')
                       (Inr [\<lparr>title = Py_str ''a.pdf'', content = Py_str ''Alpha''\<rparr>])
                       (completion_with ''Alpha, per a.pdf''))
                    (request_with_query ''What is in a.pdf?'') [])))
       = fst (handle_query_handler
                (scripted_services (completion_with ''a.pdf'')
                   (Inr [\<lparr>title = Py_str ''a.pdf'', content = Py_str ''Alpha''\<rparr>])
                   (completion_with ''Alpha, per a.pdf''))
                (request_with_query ''What is in a.pdf?'') [])"
proof -
  let ?sv = "scripted_services (completion_with ''a.pdf'')
               (Inr [\<lparr>title = Py_str ''a.pdf'', content = Py_str ''Alpha''\<rparr>])
               (completion_with ''Alpha, per a.pdf'')"
  have 1: "\<forall>h h' model messages.
             chat_create ?sv h model messages = chat_create ?sv h' model messages"
    by (simp add: scripted_services_def)
  have 2: "\<forall>h h' flt sel. search ?sv h flt sel = search ?sv h' flt sel"
    by (simp add: scripted_services_def)
  show ?thesis
    using 1 handler_deterministic [OF 1 2, of "request_with_query ''What is in a.pdf?''" "[]"]
    by blast
qed

text \<open>
  The hypothesis is needed, and the model can tell: with a chat service that remembers
  having been called, the second run answers differently.
\<close>

lemma repeat_needs_fixed_replies:
  "fst (handle_query_handler flaky_services (request_with_query ''What is in a.pdf?'') [])
     = HttpResponse (Plain ''Error: Request timed out.'') 500 None
   \<and> fst (handle_query_handler flaky_services (request_with_query ''What is in a.pdf?'')
            (snd (handle_query_handler flaky_services
                    (request_with_query ''What is in a.pdf?'') [])))
     = HttpResponse (Plain ''Error: Too many requests'') 500 None"
  by (simp add: handle_query_handler_def try_body_def request_with_query_def dict_get_def
        extract_titles_def chat_completions_create_def flaky_services_def Let_def)

text \<open>
  C10, amended. Splitting any text on \<open>", "\<close> gives at least one piece; so a list of
  titles returned by \<open>extract_titles\<close> is never empty and the branch that skips the search
  is not taken: a request with a non-empty query makes exactly one search request, with the
  filter over the titles, when its title extraction returns a list; and when its title
  extraction raises, it ends with status 500 and makes no search request.
\<close>

theorem titles_never_empty:
  "str_split s '', '' \<noteq> []
   \<and> (extract_titles sv query tr0 = (Inr titles, tr0') \<longrightarrow> titles \<noteq> [])
   \<and> (get_json req = Inr (Json_object d) \<and> d ''query'' = Some (Py_str q) \<and> q \<noteq> []
        \<and> extract_titles sv q (tr @ [Log_info ''QueryHandler function processed a request.''])
            = (Inr ts, tr2) \<longrightarrow>
      search_calls (snd (handle_query_handler sv req tr)) =
        search_calls tr @ [Search_request (filter_query_of ts) [''title'', ''content'']])
   \<and> (get_json req = Inr (Json_object d) \<and> d ''query'' = Some (Py_str q) \<and> q \<noteq> []
        \<and> extract_titles sv q (tr @ [Log_info ''QueryHandler function processed a request.''])
            = (Inl e, tr2) \<longrightarrow>
      fst (handle_query_handler sv req tr) =
        HttpResponse (Plain (''Error: '' @ exn_str e)) 500 None
      \<and> search_calls (snd (handle_query_handler sv req tr)) = search_calls tr)"
proof (intro conjI impI)
  show "str_split s '', '' \<noteq> []"
    by (rule str_split_not_Nil)
next
  assume "extract_titles sv query tr0 = (Inr titles, tr0')"
  then show "titles \<noteq> []"
    by (rule extract_titles_not_Nil)
next
  let ?tr1 = "tr @ [Log_info ''QueryHandler function processed a request.'']"
  let ?c1 = "Chat_request (azure_openai_chat_deployment sv) (title_messages q)"
  let ?s = "Search_request (filter_query_of ts) [''title'', ''content'']"
  assume "get_json req = Inr (Json_object d) \<and> d ''query'' = Some (Py_str q) \<and> q \<noteq> []
        \<and> extract_titles sv q ?tr1 = (Inr ts, tr2)"
  then have j: "get_json req = Inr (Json_object d)" and dq: "d ''query'' = Some (Py_str q)"
    and q: "q \<noteq> []" and x: "extract_titles sv q ?tr1 = (Inr ts, tr2)"
    by blast+
  have ne: "ts \<noteq> []"
    using x by (rule extract_titles_not_Nil)
  have t2: "tr2 = ?tr1 @ [?c1]"
    using extract_titles_events [of sv q ?tr1] x by simp
  have body: "try_body sv req ?tr1 = respond_with_titles sv q ts tr2"
    by (simp add: try_body_valid [OF j dq q] x)
  obtain r es where rw: "respond_with_titles sv q ts tr2 = (r, es)"
    by (cases "respond_with_titles sv q ts tr2")
  obtain x1 where s1: "search_by_titles sv ts tr2 = (x1, tr2 @ [?s])"
    using search_by_titles_events [OF ne, of sv tr2]
    by (cases "search_by_titles sv ts tr2") simp
  have "search_calls es = search_calls tr @ [?s]"
  proof (cases x1)
    case (Inl e)
    with s1 rw t2 show ?thesis by (auto simp add: respond_with_titles_def search_calls_def)
  next
    case (Inr c)
    obtain r2 where "answer_query sv q c (tr2 @ [?s]) =
        (r2, tr2 @ [?s] @ [Chat_request (azure_openai_chat_deployment sv) (answer_messages q c)])"
      using answer_query_events [of sv q c "tr2 @ [?s]"]
      by (cases "answer_query sv q c (tr2 @ [?s])") simp
    with Inr s1 rw t2 show ?thesis
      by (cases r2) (auto simp add: respond_with_titles_def search_calls_def)
  qed
  with body rw show "search_calls (snd (handle_query_handler sv req tr)) = search_calls tr @ [?s]"
    by (cases r) (simp_all add: handle_query_handler_def search_calls_def)
next
  let ?tr1 = "tr @ [Log_info ''QueryHandler function processed a request.'']"
  assume a: "get_json req = Inr (Json_object d) \<and> d ''query'' = Some (Py_str q) \<and> q \<noteq> []
        \<and> extract_titles sv q ?tr1 = (Inl e, tr2)"
  then have j: "get_json req = Inr (Json_object d)" and dq: "d ''query'' = Some (Py_str q)"
    and q: "q \<noteq> []" and x: "extract_titles sv q ?tr1 = (Inl e, tr2)"
    by blast+
  have t2: "tr2 = ?tr1 @ [Chat_request (azure_openai_chat_deployment sv) (title_messages q)]"
    using extract_titles_events [of sv q ?tr1] x by simp
  have body: "try_body sv req ?tr1 = (Inl e, tr2)"
    by (simp add: try_body_valid [OF j dq q] x)
  then show "fst (handle_query_handler sv req tr) =
      HttpResponse (Plain (''Error: '' @ exn_str e)) 500 None"
    by (simp add: handle_query_handler_def)
  from body t2 show "search_calls (snd (handle_query_handler sv req tr)) = search_calls tr"
    by (simp add: handle_query_handler_def search_calls_def)
qed

theorem titles_never_empty_witness:
  "extract_titles
     (scripted_services (dict_completion_with '''') (Inr []) (dict_completion_with ''fine''))
     ''What is new?'' [Log_info ''QueryHandler function processed a request.'']
     = (Inr [''''],
        [Log_info ''QueryHandler function processed a request.'',
         Chat_request ''chat'' (title_messages ''What is new?'')])
   \<and> [''''] \<noteq> ([] :: string list)
   \<and> search_calls (snd (handle_query_handler
          (scripted_services (dict_completion_with '''') (Inr []) (dict_completion_with ''fine''))
          (request_with_query ''What is new?'') []))
       = [Search_request (filter_query_of ['''']) [''title'', ''content'']]
   \<and> extract_titles
       (scripted_services (completion_with '''') (Inr []) (completion_with ''fine''))
       ''What is new?'' [Log_info ''QueryHandler function processed a request.'']
     = (Inl (Exn ''AttributeError''
               ([CHR 0x27] @ ''ChatCompletionMessage'' @ [CHR 0x27]
                @ '' object has no attribute 'get'' @ [CHR 0x27])),
        [Log_info ''QueryHandler function processed a request.'',
         Chat_request ''chat'' (title_messages ''What is new?'')])
   \<and> search_calls (snd (handle_query_handler
          (scripted_services (completion_with '''') (Inr []) (completion_with ''fine''))
          (request_with_query ''What is new?'') [])) = []"
proof -
  let ?svd = "scripted_services (dict_completion_with '''') (Inr []) (dict_completion_with ''fine'')"
  let ?svo = "scripted_services (completion_with '''') (Inr []) (completion_with ''fine'')"
  let ?q = "''What is new?''"
  let ?d = "[''query'' \<mapsto> Py_str ?q]"
  let ?l = "[Log_info ''QueryHandler function processed a request.'']"
  let ?tr2 = "[Log_info ''QueryHandler function processed a request.'',
              Chat_request ''chat'' (title_messages ?q)]"
  let ?e = "Exn ''AttributeError''
              ([CHR 0x27] @ ''ChatCompletionMessage'' @ [CHR 0x27]
               @ '' object has no attribute 'get'' @ [CHR 0x27])"
  have v: "get_json (request_with_query ?q) = Inr (Json_object ?d)
           \<and> ?d ''query'' = Some (Py_str ?q) \<and> ?q \<noteq> []"
    by (simp add: request_with_query_def)
  have xd: "extract_titles ?svd ?q ?l = (Inr [''''], ?tr2)"
    by (simp add: extract_titles_def chat_completions_create_def scripted_titles_reply
          scripted_deployment dict_completion_with_def first_message_def dict_get_def
          str_split_def)
  have xo: "extract_titles ?svo ?q ?l = (Inl ?e, ?tr2)"
    by (simp add: extract_titles_def chat_completions_create_def scripted_titles_reply
          scripted_deployment completion_with_def first_message_def)
  note td = titles_never_empty [where s = "''''" and sv = ?svd and query = ?q and ?tr0.0 = ?l
      and titles = "['''']" and ?tr0' = ?tr2 and req = "request_with_query ?q" and d = ?d
      and q = ?q and tr = "[]" and ts = "['''']" and ?tr2.0 = ?tr2]
  note to = titles_never_empty [where sv = ?svo and req = "request_with_query ?q" and d = ?d
      and q = ?q and tr = "[]" and e = ?e and ?tr2.0 = ?tr2]
  from td xd have 1: "[''''] \<noteq> ([] :: string list)" by blast
  from td v xd have 2: "search_calls (snd (handle_query_handler ?svd (request_with_query ?q) []))
      = search_calls [] @ [Search_request (filter_query_of ['''']) [''title'', ''content'']]"
    by simp
  from to v xo have 3: "search_calls (snd (handle_query_handler ?svo (request_with_query ?q) []))
      = search_calls []"
    by simp
  from 1 2 3 xd xo show ?thesis by (simp add: search_calls_def)
qed

text \<open>
  A request with a non-empty query whose title-extraction call times out: the response is
  500 and the index is not queried.
\<close>

theorem search_is_not_always_queried:
  "get_json (request_with_query ''What is in a.pdf?'')
     = Inr (Json_object [''query'' \<mapsto> Py_str ''What is in a.pdf?''])
   \<and> py_truthy (Py_str ''What is in a.pdf?'')
   \<and> handle_query_handler
       (scripted_services (Inl (Exn ''APITimeoutError'' ''Request timed out.'')) (Inr [])
          (completion_with ''fine''))
       (request_with_query ''What is in a.pdf?'') []
     = (HttpResponse (Plain ''Error: Request timed out.'') 500 None,
        [Log_info ''QueryHandler function processed a request.'',
         Chat_request ''chat'' (title_messages ''What is in a.pdf?''),
         Log_error ''Error in QueryHandler: Request timed out.''])
   \<and> search_calls (snd (handle_query_handler
          (scripted_services (Inl (Exn ''APITimeoutError'' ''Request timed out.'')) (Inr [])
             (completion_with ''fine''))
          (request_with_query ''What is in a.pdf?'') [])) = []"
  by (simp add: run_defs)

end
